theory Spec2Isabelle
  imports Main
begin

section \<open>The headless session loader (headless/load\_session.cc)\<close>

text \<open>
  The program is a sequence of calls into external collaborators (the option parser of
  the C library, the audio engine, the session, the cross-thread channel) and of writes
  to the two output streams. The model is a trace semantics: every function of the source
  becomes a function that returns the list of observable events it performs, in order,
  together with the way it ends. An event that is a call whose result the source
  inspects carries that result.
\<close>

subsection \<open>Data\<close>

text \<open>What \<open>load_session\<close> can throw, as \<open>main\<close>'s handlers tell the cases apart; the
  string is what \<open>e.what()\<close> returns.\<close>

datatype exn =
    FailedConstructor string
  | PortRegistrationFailure string
  | StdException string
  | UnknownException

text \<open>The four transmitters the test receiver listens to.\<close>

datatype transmitter = error | info | fatal | warning

datatype signum = SIGINT | SIGTERM

datatype event =
    Cout string
  | Cerr string
  | ParseDebugOptions string bool
  | SetBypassAllLoadedPlugins bool
  | SetDisableAllLoadedPlugins bool
  | SetConnectingBlocked bool
  | ArdourInit bool bool string bool
  | CreatePerThreadPool string nat
  | ListenTo transmitter
  | EngineCreate
  | SetBackend string string string bool
  | EngineStart int
  | NewSession string string "exn option"
  | SetSession
  | ConnectAccessAction
  | ConnectHalted
  | Signal signum
  | RequestTransportSpeed
  | Receive int
  | Deliver char
  | RemoveSession
  | DeleteSession
  | EngineStop
  | EngineDestroy

text \<open>How the process ends: a call of \<open>exit\<close>, a \<open>return\<close> from \<open>main\<close>, or undefined
  behaviour of the language.\<close>

datatype outcome = Exit int | Return int | Undefined


text \<open>The macros and conditional-compilation switches the file is built with.\<close>

record build =
  PROGRAM_NAME :: string
  VERSIONSTRING :: string
  revision :: string
  GNUC_VERSION :: "string option"
  LOCALEDIR :: string
  PLATFORM_WINDOWS :: bool
  WINDOWS_VST_SUPPORT :: bool

text \<open>
  What one run obtains from outside the file. \<open>getopt_long\<close> lists the values the
  successive calls of the C library's \<open>getopt_long\<close> return before it returns \<open>-1\<close>, each
  with the \<open>optarg\<close> it sets; \<open>optind\<close> is the index it leaves behind.
  \<open>xthread_receive n\<close> is what call number \<open>n\<close> of \<open>xthread.receive\<close> returns, \<open>None\<close>
  when that call blocks forever.
\<close>

record env =
  argv :: "string list"
  getopt_long :: "(int \<times> string) list"
  optind :: nat
  downcase :: "string \<Rightarrow> string"
  parse_debug_options :: "string \<Rightarrow> bool"
  ardour_init :: "bool \<Rightarrow> bool \<Rightarrow> string \<Rightarrow> bool"
  set_backend :: "string \<Rightarrow> string \<Rightarrow> string \<Rightarrow> bool"
  engine_start :: int
  new_session :: "string \<Rightarrow> string \<Rightarrow> exn option"
  xthread_receive :: "nat \<Rightarrow> int option"

text \<open>The file's two string globals and the two flags local to \<open>main\<close>.\<close>

record vars =
  backend_client_name :: string
  backend_name :: string
  use_vst :: bool
  try_hw_optimization :: bool

definition EXIT_FAILURE :: int where
  \<comment> \<open>Modelled from the spec: the macro \<open>EXIT_FAILURE\<close> of \<open>cstdlib\<close>, the "process-failure
      code", a non-zero status; it is 1 on the platforms the program builds on.\<close>
  "EXIT_FAILURE = 1"

subsection \<open>The three shutdown producers\<close>

definition access_action :: "string \<Rightarrow> string \<Rightarrow> event list" where
  "access_action action_group action_item =
     (if action_group = ''Common'' \<and> action_item = ''Quit'' then [Deliver (CHR ''x'')] else [])"

text \<open>\<open>strlen\<close> of a pointer that may be null: reading through the null pointer is
  undefined, which is \<open>None\<close>.\<close>

definition strlen :: "string option \<Rightarrow> nat option" where
  "strlen p = map_option length p"

text \<open>\<open>engine_halted\<close> takes a \<open>const char*\<close>, \<open>None\<close> being the null pointer. The
  result is \<open>None\<close> if the function runs into undefined behaviour.\<close>

definition engine_halted :: "string option \<Rightarrow> event list option" where
  "engine_halted reason =
     Option.bind
       (if reason \<noteq> None then map_option (\<lambda>n. 0 < n) (strlen reason) else Some False)
       (\<lambda>has_reason.
          Some ([Cerr ''The audio backend has been shutdown'']
                @ (if has_reason then [Cerr ('': '' @ the reason)] else [Cerr ''.''])
                @ [Cerr ''\<newline>'', Deliver (CHR ''x'')]))"

text \<open>Compiled only when \<open>PLATFORM_WINDOWS\<close> is not defined.\<close>

definition wearedone :: "int \<Rightarrow> event list" where
  "wearedone sig = [Cerr ''caught signal - terminating.\<newline>'', Deliver (CHR ''x'')]"

subsection \<open>Observations on traces\<close>

fun delivered :: "event list \<Rightarrow> char list" where
  "delivered [] = []"
| "delivered (Deliver c # es) = c # delivered es"
| "delivered (e # es) = delivered es"

fun cerr_text :: "event list \<Rightarrow> string" where
  "cerr_text [] = []"
| "cerr_text (Cerr s # es) = s @ cerr_text es"
| "cerr_text (e # es) = cerr_text es"

fun is_teardown :: "event \<Rightarrow> bool" where
  "is_teardown RemoveSession = True"
| "is_teardown DeleteSession = True"
| "is_teardown EngineStop = True"
| "is_teardown EngineDestroy = True"
| "is_teardown _ = False"

definition teardown_calls :: "event list \<Rightarrow> event list" where
  "teardown_calls tr = filter is_teardown tr"

text \<open>The calls that create, configure or start the engine.\<close>

fun is_engine_init :: "event \<Rightarrow> bool" where
  "is_engine_init EngineCreate = True"
| "is_engine_init (SetBackend n c a r) = True"
| "is_engine_init (EngineStart r) = True"
| "is_engine_init _ = False"

fun is_receive :: "event \<Rightarrow> bool" where
  "is_receive (Receive r) = True"
| "is_receive _ = False"

subsection \<open>Version and help text\<close>

definition print_version :: "build \<Rightarrow> event list" where
  "print_version b =
     [Cout (PROGRAM_NAME b @ VERSIONSTRING b @ '' (built using '' @ revision b
            @ (case GNUC_VERSION b of None \<Rightarrow> [] | Some v \<Rightarrow> '' and GCC version '' @ v)
            @ '')'' @ ''\<newline>'')]"

definition print_help :: "build \<Rightarrow> event list" where
  \<open>print_help b =
     [Cout (''Usage: hardour [OPTIONS]... DIR SNAPSHOT_NAME\<newline>\<newline>''
        @ ''  DIR                         Directory/Folder to load session from\<newline>''
        @ ''  SNAPSHOT_NAME               Name of session/snapshot to load (without .ardour at end\<newline>''
        @ ''  -v, --version               Show version information\<newline>''
        @ ''  -h, --help                  Print this message\<newline>''
        @ ''  -c, --name <name>           Use a specific backend client name, default is ardour\<newline>''
        @ ''  -d, --disable-plugins       Disable all plugins in an existing session\<newline>''
        @ ''  -D, --debug <options>       Set debug flags. Use "-D list" to see available options\<newline>''
        @ ''  -O, --no-hw-optimizations   Disable h/w specific optimizations\<newline>''
        @ ''  -P, --no-connect-ports      Do not connect any ports at startup\<newline>''
        @ (if WINDOWS_VST_SUPPORT b
           then ''  -V, --novst                 Do not use VST support\<newline>'' else []))]\<close>

subsection \<open>\<open>load_session\<close>\<close>

datatype loaded = Loaded | Exited int | Thrown exn

definition load_session :: "env \<Rightarrow> vars \<Rightarrow> string \<Rightarrow> string \<Rightarrow> event list \<times> loaded" where
  "load_session e v dir state =
     (let t0 = [CreatePerThreadPool ''test'' 512,
                ListenTo error, ListenTo info, ListenTo fatal, ListenTo warning,
                EngineCreate];
          ok = set_backend e (backend_name v) (backend_client_name v) [];
          t1 = t0 @ [SetBackend (backend_name v) (backend_client_name v) [] ok]
      in if \<not> ok then (t1 @ [Cerr ''Cannot set Audio/MIDI engine backend\<newline>''], Exited 1)
         else
           let r = engine_start e; t2 = t1 @ [EngineStart r]
           in if r \<noteq> 0 then (t2 @ [Cerr ''Cannot start Audio/MIDI engine\<newline>''], Exited 1)
              else
                (case new_session e dir state of
                   Some x \<Rightarrow> (t2 @ [NewSession dir state (Some x)], Thrown x)
                 | None \<Rightarrow> (t2 @ [NewSession dir state None, SetSession], Loaded)))"

subsection \<open>\<open>main\<close>\<close>

definition prepend :: "event list \<Rightarrow> event list \<times> 'a \<Rightarrow> event list \<times> 'a" where
  "prepend t r = (t @ fst r, snd r)"

text \<open>The \<open>switch\<close> of the option loop, lines 162 to 211, for one value \<open>c\<close> that
  \<open>getopt_long\<close> returned: its trace, and either the way the process ends there or the
  variables after the \<open>break\<close>.\<close>

definition switch_c :: "build \<Rightarrow> env \<Rightarrow> int \<Rightarrow> string \<Rightarrow> vars \<Rightarrow> event list \<times> (outcome + vars)" where
  "switch_c b e c optarg v =
     (if c = 0 then ([], Inr v)
      else if c = of_char (CHR ''v'') then (print_version b, Inl (Exit 0))
      else if c = of_char (CHR ''h'') then (print_help b, Inl (Exit 0))
      else if c = of_char (CHR ''c'') then ([], Inr (v\<lparr>backend_client_name := optarg\<rparr>))
      else if c = of_char (CHR ''B'') then ([SetBypassAllLoadedPlugins True], Inr v)
      else if c = of_char (CHR ''d'') then ([SetDisableAllLoadedPlugins True], Inr v)
      else if c = of_char (CHR ''D'') then
        (if parse_debug_options e optarg then ([ParseDebugOptions optarg True], Inl (Exit 1))
         else ([ParseDebugOptions optarg False], Inr v))
      else if c = of_char (CHR ''O'') then ([], Inr (v\<lparr>try_hw_optimization := False\<rparr>))
      else if c = of_char (CHR ''P'') then ([SetConnectingBlocked True], Inr v)
      else if c = of_char (CHR ''V'') then
        ([], Inr (if WINDOWS_VST_SUPPORT b then v\<lparr>use_vst := False\<rparr> else v))
      else (print_help b, Inl (Exit 1)))"

text \<open>The option loop, lines 155 to 212: one round for each value \<open>getopt_long\<close> returns.
  The result is the loop's trace and either the way the process ended inside the loop or
  the variables as the loop leaves them.\<close>

fun getopt_loop :: "build \<Rightarrow> env \<Rightarrow> (int \<times> string) list \<Rightarrow> vars \<Rightarrow> event list \<times> (outcome + vars)" where
  "getopt_loop b e [] v = ([], Inr v)"
| "getopt_loop b e ((c, optarg) # rest) v =
     (if c = - 1 then ([], Inr v)
      else
        (case switch_c b e c optarg v of
           (t, Inl out) \<Rightarrow> (t, Inl out)
         | (t, Inr v') \<Rightarrow> prepend t (getopt_loop b e rest v')))"

text \<open>What each handler of the \<open>try\<close> block writes.\<close>

fun handler :: "exn \<Rightarrow> string" where
  "handler (FailedConstructor w) = ''failed_constructor: '' @ w @ ''\<newline>''"
| "handler (PortRegistrationFailure w) = ''PortRegistrationFailure: '' @ w @ ''\<newline>''"
| "handler (StdException w) = ''exception: '' @ w @ ''\<newline>''"
| "handler UnknownException = ''unknown exception.\<newline>''"

datatype phase = Ended outcome | Running

text \<open>The variables as the file initialises them.\<close>

definition initial_vars :: vars where
  "initial_vars =
     \<lparr>backend_client_name = [], backend_name = ''JACK'', use_vst = True,
      try_hw_optimization = True\<rparr>"

text \<open>
  Lines 129 to 251 of \<open>main\<close>: everything up to the transport request. \<open>argv[optind]\<close> and
  \<open>argv[optind+1]\<close> are strings only below \<open>argc\<close>; building a \<open>std::string\<close> from
  \<open>argv[argc]\<close>, the null pointer, or from what lies behind it is undefined.
\<close>

definition main_startup :: "build \<Rightarrow> env \<Rightarrow> event list \<times> phase" where
  "main_startup b e =
     (let v0 = initial_vars\<lparr>backend_client_name := downcase e (PROGRAM_NAME b)\<rparr>
      in case getopt_loop b e (getopt_long e) v0 of
           (t1, Inl out) \<Rightarrow> (t1, Ended out)
         | (t1, Inr v) \<Rightarrow>
             if length (argv e) < 3 then (t1 @ print_help b, Ended (Exit 1))
             else
               let ok = ardour_init e (use_vst v) (try_hw_optimization v) (LOCALEDIR b);
                   t2 = t1 @ [ArdourInit (use_vst v) (try_hw_optimization v) (LOCALEDIR b) ok]
               in if \<not> ok then
                    (t2 @ [Cerr ''Ardour failed to initialize\<newline>\<newline>''], Ended (Exit 1))
                  else if \<not> optind e + 1 < length (argv e) then (t2, Ended Undefined)
                  else
                    (case load_session e v (argv e ! optind e) (argv e ! (optind e + 1)) of
                       (t3, Exited n) \<Rightarrow> (t2 @ t3, Ended (Exit n))
                     | (t3, Thrown x) \<Rightarrow>
                         (t2 @ t3 @ [Cerr (handler x)], Ended (Exit EXIT_FAILURE))
                     | (t3, Loaded) \<Rightarrow>
                         (t2 @ t3 @ [ConnectAccessAction, ConnectHalted]
                          @ (if PLATFORM_WINDOWS b then [] else [Signal SIGINT, Signal SIGTERM])
                          @ [RequestTransportSpeed],
                          Running)))"

text \<open>Line 254, \<open>do {} while (0 == xthread.receive (msg, true))\<close>: call number \<open>n\<close> and
  those after it. The loop need not end, so the result is an option.\<close>

partial_function (option) receive_loop :: "(nat \<Rightarrow> int option) \<Rightarrow> nat \<Rightarrow> event list option" where
  "receive_loop rc n =
     (case rc n of
        None \<Rightarrow> None
      | Some r \<Rightarrow>
          if 0 = r then Option.bind (receive_loop rc (Suc n)) (\<lambda>t. Some (Receive r # t))
          else Some [Receive r])"

definition teardown :: "event list" where
  "teardown = [RemoveSession, DeleteSession, EngineStop, EngineDestroy]"

definition main :: "build \<Rightarrow> env \<Rightarrow> (event list \<times> outcome) option" where
  "main b e =
     (case main_startup b e of
        (t, Ended out) \<Rightarrow> Some (t, out)
      | (t, Running) \<Rightarrow>
          Option.bind (receive_loop (xthread_receive e) 0)
            (\<lambda>w. Some (t @ w @ teardown, Return 0)))"

text \<open>The events of the option loop and of the help and version texts.\<close>

fun is_option_event :: "event \<Rightarrow> bool" where
  "is_option_event (Cout s) = True"
| "is_option_event (ParseDebugOptions s r) = True"
| "is_option_event (SetBypassAllLoadedPlugins x) = True"
| "is_option_event (SetDisableAllLoadedPlugins x) = True"
| "is_option_event (SetConnectingBlocked x) = True"
| "is_option_event _ = False"

text \<open>The client name the command line asks for, read off the options alone: the
  argument of the last \<open>-c\<close> that \<open>getopt_long\<close> reports before \<open>-1\<close>, and the lower-cased
  program name when there is none.\<close>

definition configured_client_name :: "build \<Rightarrow> env \<Rightarrow> string" where
  "configured_client_name b e =
     (case filter (\<lambda>p. fst p = of_char (CHR ''c''))
             (takeWhile (\<lambda>p. fst p \<noteq> - 1) (getopt_long e)) of
        [] \<Rightarrow> downcase e (PROGRAM_NAME b)
      | p # ps \<Rightarrow> snd (last (p # ps)))"



subsection \<open>Example runs\<close>

text \<open>A build and a family of runs for evaluating the model. \<open>PBD::downcase\<close> is a
  parameter of the model; the runs use ASCII lower-casing for it.\<close>

definition ascii_downcase :: "string \<Rightarrow> string" where
  "ascii_downcase s =
     map (\<lambda>c. case map_of (zip ''ABCDEFGHIJKLMNOPQRSTUVWXYZ'' ''abcdefghijklmnopqrstuvwxyz'') c of
                 None \<Rightarrow> c | Some l \<Rightarrow> l) s"

definition build0 :: build where
  "build0 =
     \<lparr>PROGRAM_NAME = ''Ardour'', VERSIONSTRING = ''5.12'', revision = ''5.12-0'',
      GNUC_VERSION = Some ''8.3.0'', LOCALEDIR = ''/usr/share/locale'',
      PLATFORM_WINDOWS = False, WINDOWS_VST_SUPPORT = False\<rparr>"

text \<open>\<open>hardour /tmp/s s\<close> on a machine where every collaborator succeeds and the first
  \<open>receive\<close> returns one byte.\<close>

definition env0 :: env where
  "env0 =
     \<lparr>argv = [''hardour'', ''/tmp/s'', ''s''], getopt_long = [], optind = 1,
      downcase = ascii_downcase, parse_debug_options = (\<lambda>s. False),
      ardour_init = (\<lambda>v h l. True), set_backend = (\<lambda>n c a. True), engine_start = 0,
      new_session = (\<lambda>d s. None), xthread_receive = (\<lambda>n. Some 1)\<rparr>"

text \<open>The same run when \<open>receive\<close> returns 0 twice before it returns one byte.\<close>

definition env_retry :: env where
  "env_retry = env0\<lparr>xthread_receive := (\<lambda>n. if n < 2 then Some 0 else Some 1)\<rparr>"





definition env_client :: env where
  "env_client =
     env0\<lparr>argv := [''hardour'', ''-c'', ''studio'', ''/tmp/s'', ''s''],
          getopt_long := [(of_char (CHR ''c''), ''studio'')], optind := 3\<rparr>"


definition env_flagged :: env where
  "env_flagged =
     env0\<lparr>argv := [''hardour'', ''-d'', ''/tmp/s''], getopt_long := [(of_char (CHR ''d''), [])],
          optind := 2\<rparr>"

section \<open>Basic facts\<close>

lemma prepend_fst: "fst (prepend t r) = t @ fst r" and prepend_snd: "snd (prepend t r) = snd r"
  by (simp_all add: prepend_def)

lemma print_help_events: "ev \<in> set (print_help b) \<Longrightarrow> is_option_event ev"
  unfolding print_help_def by auto

lemma print_version_events: "ev \<in> set (print_version b) \<Longrightarrow> is_option_event ev"
  unfolding print_version_def by auto

lemma switch_c_events: "ev \<in> set (fst (switch_c b e c a v)) \<Longrightarrow> is_option_event ev"
  unfolding switch_c_def
  by (auto split: if_splits dest: print_help_events print_version_events)

lemma switch_c_backend_name:
  "snd (switch_c b e c a v) = Inr v' \<Longrightarrow> backend_name v' = backend_name v"
  unfolding switch_c_def by (auto split: if_splits)

lemma switch_c_client_name:
  "snd (switch_c b e c a v) = Inr v' \<Longrightarrow>
   backend_client_name v' = (if c = of_char (CHR ''c'') then a else backend_client_name v)"
  unfolding switch_c_def by (auto split: if_splits)

lemma switch_c_outcome:
  "snd (switch_c b e c a v) = Inl out \<Longrightarrow> out = Exit 0 \<or> out = Exit 1"
  unfolding switch_c_def by (auto split: if_splits)

lemma getopt_loop_events:
  "ev \<in> set (fst (getopt_loop b e os v)) \<Longrightarrow> is_option_event ev"
proof (induction os arbitrary: v)
  case Nil
  then show ?case by simp
next
  case (Cons p os)
  obtain c a where p: "p = (c, a)" by (cases p)
  obtain t r where sw: "switch_c b e c a v = (t, r)" by (cases "switch_c b e c a v")
  have t: "ev \<in> set t \<Longrightarrow> is_option_event ev"
    using switch_c_events [of ev b e c a v] sw by simp
  show ?case
  proof (cases r)
    case (Inl out)
    then show ?thesis using Cons.prems p sw t by (simp split: if_splits)
  next
    case (Inr v')
    then show ?thesis
      using Cons.prems p sw t Cons.IH [of v'] by (auto simp: prepend_fst split: if_splits)
  qed
qed

lemma getopt_loop_backend_name:
  "snd (getopt_loop b e os v) = Inr v' \<Longrightarrow> backend_name v' = backend_name v"
proof (induction os arbitrary: v)
  case Nil
  then show ?case by simp
next
  case (Cons p os)
  obtain c a where p: "p = (c, a)" by (cases p)
  obtain t r where sw: "switch_c b e c a v = (t, r)" by (cases "switch_c b e c a v")
  show ?case
  proof (cases r)
    case (Inl out)
    then show ?thesis using Cons.prems p sw by (simp split: if_splits)
  next
    case (Inr w)
    have "backend_name w = backend_name v"
      using switch_c_backend_name [of b e c a v w] sw Inr by simp
    then show ?thesis
      using Cons.prems p sw Inr Cons.IH [of w] by (auto simp: prepend_snd split: if_splits)
  qed
qed

lemma getopt_loop_outcome:
  "snd (getopt_loop b e os v) = Inl out \<Longrightarrow> out = Exit 0 \<or> out = Exit 1"
proof (induction os arbitrary: v)
  case Nil
  then show ?case by simp
next
  case (Cons p os)
  obtain c a where p: "p = (c, a)" by (cases p)
  obtain t r where sw: "switch_c b e c a v = (t, r)" by (cases "switch_c b e c a v")
  show ?case
  proof (cases r)
    case (Inl out')
    then show ?thesis
      using Cons.prems p sw switch_c_outcome [of b e c a v out'] by (simp split: if_splits)
  next
    case (Inr w)
    then show ?thesis
      using Cons.prems p sw Cons.IH [of w] by (auto simp: prepend_snd split: if_splits)
  qed
qed

text \<open>The client name the loop leaves behind is the one read off the options.\<close>

lemma getopt_loop_client_name:
  "snd (getopt_loop b e os v) = Inr v' \<Longrightarrow>
   backend_client_name v' =
     (case filter (\<lambda>p. fst p = of_char (CHR ''c'')) (takeWhile (\<lambda>p. fst p \<noteq> - 1) os) of
        [] \<Rightarrow> backend_client_name v
      | p # ps \<Rightarrow> snd (last (p # ps)))"
proof (induction os arbitrary: v)
  case Nil
  then show ?case by simp
next
  case (Cons p os)
  obtain c a where p: "p = (c, a)" by (cases p)
  show ?case
  proof (cases "c = - 1")
    case True
    then show ?thesis using Cons.prems p by simp
  next
    case False
    obtain t r where sw: "switch_c b e c a v = (t, r)" by (cases "switch_c b e c a v")
    show ?thesis
    proof (cases r)
      case (Inl out)
      then show ?thesis using Cons.prems p sw False by simp
    next
      case (Inr w)
      have w: "backend_client_name w = (if c = of_char (CHR ''c'') then a else backend_client_name v)"
        using switch_c_client_name [of b e c a v w] sw Inr by simp
      have "snd (getopt_loop b e os w) = Inr v'"
        using Cons.prems p sw Inr False by (simp add: prepend_snd)
      from Cons.IH [OF this] show ?thesis
        using w p False by (auto split: list.splits)
    qed
  qed
qed

lemma receive_loop_returns:
  "rc (n + k) = Some r \<Longrightarrow> r \<noteq> 0 \<Longrightarrow> \<forall>j<k. rc (n + j) = Some 0 \<Longrightarrow>
   receive_loop rc n = Some (replicate k (Receive 0) @ [Receive r])"
proof (induction k arbitrary: n)
  case 0
  then show ?case by (subst receive_loop.simps) simp
next
  case (Suc k)
  have first: "rc n = Some 0" using Suc.prems(3) [rule_format, of 0] by simp
  have "receive_loop rc (Suc n) = Some (replicate k (Receive 0) @ [Receive r])"
  proof (rule Suc.IH)
    show "rc (Suc n + k) = Some r" using Suc.prems(1) by simp
    show "r \<noteq> 0" by fact
    show "\<forall>j<k. rc (Suc n + j) = Some 0"
      using Suc.prems(3) [rule_format, of "Suc _"] by simp
  qed
  then show ?case using first by (subst receive_loop.simps) simp
qed

text \<open>The shapes a run of lines 129 to 251 can have: the option loop's trace \<open>t\<close>, then
  one of eight continuations.\<close>

lemma main_startup_cases:
  obtains
    (opts) t out where
      "main_startup b e = (t, Ended out)" "\<forall>ev\<in>set t. is_option_event ev"
      "out = Exit 0 \<or> out = Exit 1"
      "snd (getopt_loop b e (getopt_long e)
              (initial_vars\<lparr>backend_client_name := downcase e (PROGRAM_NAME b)\<rparr>)) = Inl out"
  | (few) t v where
      "main_startup b e = (t @ print_help b, Ended (Exit 1))" "\<forall>ev\<in>set t. is_option_event ev"
      "length (argv e) < 3"
      "snd (getopt_loop b e (getopt_long e)
              (initial_vars\<lparr>backend_client_name := downcase e (PROGRAM_NAME b)\<rparr>)) = Inr v"
  | (init) t u h where
      "main_startup b e =
         (t @ [ArdourInit u h (LOCALEDIR b) False, Cerr ''Ardour failed to initialize\<newline>\<newline>''],
          Ended (Exit 1))"
      "\<forall>ev\<in>set t. is_option_event ev" "3 \<le> length (argv e)"
  | (undefined) t u h where
      "main_startup b e = (t @ [ArdourInit u h (LOCALEDIR b) True], Ended Undefined)"
      "\<forall>ev\<in>set t. is_option_event ev" "3 \<le> length (argv e)"
      "\<not> optind e + 1 < length (argv e)"
  | (backend) t u h where
      "main_startup b e =
         (t @ [ArdourInit u h (LOCALEDIR b) True,
               CreatePerThreadPool ''test'' 512,
               ListenTo error, ListenTo info, ListenTo fatal, ListenTo warning, EngineCreate,
               SetBackend ''JACK'' (configured_client_name b e) [] False,
               Cerr ''Cannot set Audio/MIDI engine backend\<newline>''],
          Ended (Exit 1))"
      "\<forall>ev\<in>set t. is_option_event ev" "3 \<le> length (argv e)"
  | (start) t u h r where
      "main_startup b e =
         (t @ [ArdourInit u h (LOCALEDIR b) True,
               CreatePerThreadPool ''test'' 512,
               ListenTo error, ListenTo info, ListenTo fatal, ListenTo warning, EngineCreate,
               SetBackend ''JACK'' (configured_client_name b e) [] True,
               EngineStart r,
               Cerr ''Cannot start Audio/MIDI engine\<newline>''],
          Ended (Exit 1))"
      "\<forall>ev\<in>set t. is_option_event ev" "3 \<le> length (argv e)" "r \<noteq> 0"
  | (thrown) t u h x where
      "main_startup b e =
         (t @ [ArdourInit u h (LOCALEDIR b) True,
               CreatePerThreadPool ''test'' 512,
               ListenTo error, ListenTo info, ListenTo fatal, ListenTo warning, EngineCreate,
               SetBackend ''JACK'' (configured_client_name b e) [] True,
               EngineStart 0,
               NewSession (argv e ! optind e) (argv e ! (optind e + 1)) (Some x),
               Cerr (handler x)],
          Ended (Exit EXIT_FAILURE))"
      "\<forall>ev\<in>set t. is_option_event ev" "3 \<le> length (argv e)"
  | (running) t u h where
      "main_startup b e =
         (t @ [ArdourInit u h (LOCALEDIR b) True,
               CreatePerThreadPool ''test'' 512,
               ListenTo error, ListenTo info, ListenTo fatal, ListenTo warning, EngineCreate,
               SetBackend ''JACK'' (configured_client_name b e) [] True,
               EngineStart 0,
               NewSession (argv e ! optind e) (argv e ! (optind e + 1)) None,
               SetSession, ConnectAccessAction, ConnectHalted]
            @ (if PLATFORM_WINDOWS b then [] else [Signal SIGINT, Signal SIGTERM])
            @ [RequestTransportSpeed],
          Running)"
      "\<forall>ev\<in>set t. is_option_event ev" "3 \<le> length (argv e)"
      "optind e + 1 < length (argv e)"
proof -
  define v0 where "v0 = initial_vars\<lparr>backend_client_name := downcase e (PROGRAM_NAME b)\<rparr>"
  obtain t r where g: "getopt_loop b e (getopt_long e) v0 = (t, r)"
    by (cases "getopt_loop b e (getopt_long e) v0")
  have ev: "\<forall>ev\<in>set t. is_option_event ev"
    using getopt_loop_events [of _ b e "getopt_long e" v0] g by simp
  show thesis
  proof (cases r)
    case (Inl out)
    have "main_startup b e = (t, Ended out)"
      using g Inl by (simp add: main_startup_def v0_def)
    moreover have "out = Exit 0 \<or> out = Exit 1"
      using getopt_loop_outcome [of b e "getopt_long e" v0 out] g Inl by simp
    ultimately show thesis using opts ev g Inl by (simp add: v0_def)
  next
    case (Inr v)
    have bn: "backend_name v = ''JACK''"
      using getopt_loop_backend_name [of b e "getopt_long e" v0 v] g Inr
      by (simp add: v0_def initial_vars_def)
    have cn: "backend_client_name v = configured_client_name b e"
      using getopt_loop_client_name [of b e "getopt_long e" v0 v] g Inr
      by (simp add: v0_def configured_client_name_def split: list.splits)
    have gl: "getopt_loop b e (getopt_long e)
                (initial_vars\<lparr>backend_client_name := downcase e (PROGRAM_NAME b)\<rparr>) = (t, Inr v)"
      using g Inr by (simp add: v0_def)
    show thesis
    proof (cases "length (argv e) < 3")
      case True
      have "main_startup b e = (t @ print_help b, Ended (Exit 1))"
        using gl True by (simp add: main_startup_def)
      then show thesis using few ev True gl by simp
    next
      case argc: False
      define u where "u = use_vst v"
      define h where "h = try_hw_optimization v"
      show thesis
      proof (cases "ardour_init e u h (LOCALEDIR b)")
        case False
        have "main_startup b e =
                (t @ [ArdourInit u h (LOCALEDIR b) False,
                      Cerr ''Ardour failed to initialize\<newline>\<newline>''], Ended (Exit 1))"
          using gl argc False by (simp add: main_startup_def u_def h_def)
        then show thesis using init ev argc by simp
      next
        case ok: True
        show thesis
        proof (cases "optind e + 1 < length (argv e)")
          case False
          have "main_startup b e = (t @ [ArdourInit u h (LOCALEDIR b) True], Ended Undefined)"
            using gl argc ok False by (simp add: main_startup_def u_def h_def)
          then show thesis using undefined ev argc False by simp
        next
          case idx: True
          show thesis
          proof (cases "set_backend e ''JACK'' (configured_client_name b e) []")
            case False
            have "main_startup b e =
                    (t @ [ArdourInit u h (LOCALEDIR b) True,
                          CreatePerThreadPool ''test'' 512,
                          ListenTo error, ListenTo info, ListenTo fatal, ListenTo warning,
                          EngineCreate,
                          SetBackend ''JACK'' (configured_client_name b e) [] False,
                          Cerr ''Cannot set Audio/MIDI engine backend\<newline>''],
                     Ended (Exit 1))"
              using gl argc ok idx False bn cn
              by (simp add: main_startup_def load_session_def u_def h_def)
            then show thesis using backend ev argc by simp
          next
            case sb: True
            show thesis
            proof (cases "engine_start e = 0")
              case False
              have "main_startup b e =
                      (t @ [ArdourInit u h (LOCALEDIR b) True,
                            CreatePerThreadPool ''test'' 512,
                            ListenTo error, ListenTo info, ListenTo fatal, ListenTo warning,
                            EngineCreate,
                            SetBackend ''JACK'' (configured_client_name b e) [] True,
                            EngineStart (engine_start e),
                            Cerr ''Cannot start Audio/MIDI engine\<newline>''],
                       Ended (Exit 1))"
                using gl argc ok idx sb False bn cn
                by (simp add: main_startup_def load_session_def u_def h_def)
              then show thesis using start ev argc False by simp
            next
              case es: True
              show thesis
              proof (cases "new_session e (argv e ! optind e) (argv e ! (optind e + 1))")
                case (Some x)
                have "main_startup b e =
                        (t @ [ArdourInit u h (LOCALEDIR b) True,
                              CreatePerThreadPool ''test'' 512,
                              ListenTo error, ListenTo info, ListenTo fatal, ListenTo warning,
                              EngineCreate,
                              SetBackend ''JACK'' (configured_client_name b e) [] True,
                              EngineStart 0,
                              NewSession (argv e ! optind e) (argv e ! (optind e + 1)) (Some x),
                              Cerr (handler x)],
                         Ended (Exit EXIT_FAILURE))"
                  using gl argc ok idx sb es Some bn cn
                  by (simp add: main_startup_def load_session_def u_def h_def)
                then show thesis using thrown ev argc by simp
              next
                case None
                have "main_startup b e =
                        (t @ [ArdourInit u h (LOCALEDIR b) True,
                              CreatePerThreadPool ''test'' 512,
                              ListenTo error, ListenTo info, ListenTo fatal, ListenTo warning,
                              EngineCreate,
                              SetBackend ''JACK'' (configured_client_name b e) [] True,
                              EngineStart 0,
                              NewSession (argv e ! optind e) (argv e ! (optind e + 1)) None,
                              SetSession, ConnectAccessAction, ConnectHalted]
                           @ (if PLATFORM_WINDOWS b then [] else [Signal SIGINT, Signal SIGTERM])
                           @ [RequestTransportSpeed],
                         Running)"
                  using gl argc ok idx sb es None bn cn
                  by (simp add: main_startup_def load_session_def u_def h_def)
                then show thesis using running ev argc idx by simp
              qed
            qed
          qed
        qed
      qed
    qed
  qed
qed

lemma option_event_facts:
  "is_option_event ev \<Longrightarrow>
   \<not> is_teardown ev \<and> \<not> is_receive ev \<and> \<not> is_engine_init ev \<and> ev \<noteq> RequestTransportSpeed
   \<and> (\<forall>d s x. ev \<noteq> NewSession d s x) \<and> (\<forall>u h l r. ev \<noteq> ArdourInit u h l r)"
  by (cases ev) simp_all

text \<open>Nothing before the wait tears anything down or reads the channel.\<close>

lemma main_startup_quiet:
  "ev \<in> set (fst (main_startup b e)) \<Longrightarrow> \<not> is_teardown ev \<and> \<not> is_receive ev"
  by (rule main_startup_cases [of b e])
     (auto dest: option_event_facts print_help_events split: if_splits)

lemma main_startup_teardown_calls: "teardown_calls (fst (main_startup b e)) = []"
  unfolding teardown_calls_def using main_startup_quiet [of _ b e] by (simp add: filter_empty_conv)

lemma main_startup_receives: "filter is_receive (fst (main_startup b e)) = []"
  using main_startup_quiet [of _ b e] by (simp add: filter_empty_conv)


lemma receive_loop_events:
  assumes "receive_loop rc n = Some w"
  shows "\<forall>ev\<in>set w. is_receive ev"
  using assms
proof (induct rc n w rule: receive_loop.raw_induct [rotated 1, consumes 1])
  case (1 rl rc n w)
  then show ?case by (auto split: option.splits if_splits bind_splits)
qed

lemmas run_defs = main_def main_startup_def load_session_def initial_vars_def
  build0_def env0_def ascii_downcase_def teardown_def






text \<open>One flag and one positional argument: \<open>argc\<close> is 3, the test \<open>argc < 3\<close> lets the run
  through, the library is initialised, and \<open>argv[optind+1]\<close> is \<open>argv[argc]\<close>.\<close>

lemma flag_and_one_positional:
  "length (argv env_flagged) - optind env_flagged = 1
   \<and> main build0 env_flagged =
       Some ([SetDisableAllLoadedPlugins True,
              ArdourInit True True ''/usr/share/locale'' True], Undefined)"
  by (simp add: run_defs env_flagged_def switch_c_def prepend_def)

section \<open>The UI action callback\<close>

text \<open>
  C3. For every pair (action group, action item) the callback delivers a token to the
  channel if and only if the pair is ("Common", "Quit"); for every other pair it does
  nothing at all: its list of effects is empty.
\<close>

theorem access_action_quit_only:
  "(delivered (access_action g i) \<noteq> [] \<longleftrightarrow> g = ''Common'' \<and> i = ''Quit'')
   \<and> ((g, i) \<noteq> (''Common'', ''Quit'') \<longrightarrow> access_action g i = [])
   \<and> ((g, i) = (''Common'', ''Quit'') \<longrightarrow> access_action g i = [Deliver (CHR ''x'')])"
  by (simp add: access_action_def)

theorem access_action_quit_only_witness:
  "(''Common'', ''Save'') \<noteq> (''Common'', ''Quit'') \<and> access_action ''Common'' ''Save'' = []
   \<and> (''Common'', ''Quit'') = (''Common'', ''Quit'')
   \<and> access_action ''Common'' ''Quit'' = [Deliver (CHR ''x'')]"
  using access_action_quit_only [of "''Common''" "''Save''"]
        access_action_quit_only [of "''Common''" "''Quit''"]
  by simp

section \<open>The shutdown coordinator\<close>

text \<open>
  C1. In every run that reaches the Running state, once a call of \<open>receive\<close> returns a
  non-zero value (the calls before it having returned 0, on which the loop waits again),
  the program does not call \<open>receive\<close> again: it removes the session from the engine,
  deletes the session, stops the engine and destroys the engine, each once and in this
  order, and returns 0. Nothing before the wait is a teardown step or a \<open>receive\<close>.
\<close>

theorem teardown_once_in_order:
  assumes "snd (main_startup b e) = Running"
    and "xthread_receive e k = Some r" and "r \<noteq> 0"
    and "\<forall>j<k. xthread_receive e j = Some 0"
  shows "\<exists>tr. main b e = Some (tr, Return 0)
           \<and> tr = fst (main_startup b e) @ replicate k (Receive 0) @ [Receive r]
                    @ [RemoveSession, DeleteSession, EngineStop, EngineDestroy]
           \<and> teardown_calls tr = [RemoveSession, DeleteSession, EngineStop, EngineDestroy]
           \<and> filter is_receive tr = replicate k (Receive 0) @ [Receive r]"
proof -
  obtain t where st: "main_startup b e = (t, Running)"
    using assms(1) by (cases "main_startup b e") simp
  have loop: "receive_loop (xthread_receive e) 0 = Some (replicate k (Receive 0) @ [Receive r])"
    using receive_loop_returns [of "xthread_receive e" 0 k r] assms(2-4) by simp
  have m: "main b e = Some (t @ replicate k (Receive 0) @ [Receive r] @ teardown, Return 0)"
    using st loop by (simp add: main_def)
  have quiet: "teardown_calls t = []" "filter is_receive t = []"
    using main_startup_teardown_calls [of b e] main_startup_receives [of b e] st by simp_all
  have rep: "filter is_teardown (replicate k (Receive 0)) = []"
            "filter is_receive (replicate k (Receive 0)) = replicate k (Receive 0)"
    by (induction k) simp_all
  show ?thesis
    using m st quiet rep by (simp add: teardown_def teardown_calls_def)
qed

theorem teardown_once_in_order_witness:
  "snd (main_startup build0 env_retry) = Running
   \<and> xthread_receive env_retry 2 = Some 1 \<and> (1::int) \<noteq> 0
   \<and> xthread_receive env_retry 0 = Some 0 \<and> xthread_receive env_retry 1 = Some 0
   \<and> main build0 env_retry =
       Some ([ArdourInit True True ''/usr/share/locale'' True,
              CreatePerThreadPool ''test'' 512,
              ListenTo error, ListenTo info, ListenTo fatal, ListenTo warning, EngineCreate,
              SetBackend ''JACK'' ''ardour'' [] True, EngineStart 0,
              NewSession ''/tmp/s'' ''s'' None, SetSession,
              ConnectAccessAction, ConnectHalted, Signal SIGINT, Signal SIGTERM,
              RequestTransportSpeed,
              Receive 0, Receive 0, Receive 1,
              RemoveSession, DeleteSession, EngineStop, EngineDestroy], Return 0)"
proof -
  have st: "main_startup build0 env_retry =
       ([ArdourInit True True ''/usr/share/locale'' True,
         CreatePerThreadPool ''test'' 512,
         ListenTo error, ListenTo info, ListenTo fatal, ListenTo warning, EngineCreate,
         SetBackend ''JACK'' ''ardour'' [] True, EngineStart 0,
         NewSession ''/tmp/s'' ''s'' None, SetSession,
         ConnectAccessAction, ConnectHalted, Signal SIGINT, Signal SIGTERM,
         RequestTransportSpeed], Running)"
    by (simp add: main_startup_def load_session_def initial_vars_def env_retry_def env0_def
          build0_def ascii_downcase_def)
  have rc: "xthread_receive env_retry 2 = Some 1" "\<forall>j<2. xthread_receive env_retry j = Some 0"
    by (simp_all add: env_retry_def env0_def)
  have run: "snd (main_startup build0 env_retry) = Running" using st by simp
  have two: "replicate 2 (Receive 0) = [Receive 0, Receive 0]" by (simp add: numeral_2_eq_2)
  have first: "xthread_receive env_retry 0 = Some 0" "xthread_receive env_retry 1 = Some 0"
    by (simp_all add: env_retry_def env0_def)
  show ?thesis
    using teardown_once_in_order [OF run rc(1) _ rc(2)] st rc(1) first two by auto
qed



section \<open>Failures at startup\<close>





section \<open>The command line\<close>




text \<open>
  C9. Whenever the program sets the engine's backend, the backend name it passes is
  "JACK", whatever the command line and the environment are, the third argument is the
  empty string, and the client name is the one the command line configures: the argument
  of the last \<open>-c\<close>, or else the lower-cased program name.
\<close>

theorem backend_name_is_JACK:
  assumes "SetBackend n c a r \<in> set (fst (main_startup b e))
           \<or> (\<exists>tr out. main b e = Some (tr, out) \<and> SetBackend n c a r \<in> set tr)"
  shows "n = ''JACK'' \<and> c = configured_client_name b e \<and> a = []"
proof -
  have "SetBackend n c a r \<in> set (fst (main_startup b e))"
  proof (rule disjE [OF assms])
    assume "\<exists>tr out. main b e = Some (tr, out) \<and> SetBackend n c a r \<in> set tr"
    then obtain tr out where m: "main b e = Some (tr, out)" "SetBackend n c a r \<in> set tr"
      by blast
    obtain t p where st: "main_startup b e = (t, p)" by (cases "main_startup b e")
    show ?thesis
    proof (cases p)
      case (Ended out')
      then show ?thesis using m st by (simp add: main_def)
    next
      case Running
      then obtain w where w: "receive_loop (xthread_receive e) 0 = Some w" "tr = t @ w @ teardown"
        using m st by (auto simp: main_def split: bind_splits)
      have "\<forall>ev\<in>set w. is_receive ev" using receive_loop_events [OF w(1)] .
      then show ?thesis using st m w by (auto simp: teardown_def)
    qed
  qed
  then have inside: "SetBackend n c a r \<in> set (fst (main_startup b e))" .
  show ?thesis
    by (rule main_startup_cases [of b e])
       (use inside in \<open>auto dest: option_event_facts print_help_events split: if_splits\<close>)
qed

theorem backend_name_is_JACK_witness:
  "SetBackend ''JACK'' ''studio'' [] True \<in> set (fst (main_startup build0 env_client))
   \<and> configured_client_name build0 env_client = ''studio''
   \<and> SetBackend ''JACK'' ''ardour'' [] True \<in> set (fst (main_startup build0 env0))
   \<and> configured_client_name build0 env0 = ''ardour''"
proof -
  have c: "SetBackend ''JACK'' ''studio'' [] True \<in> set (fst (main_startup build0 env_client))"
    by (simp add: run_defs env_client_def switch_c_def prepend_def)
  have d: "SetBackend ''JACK'' ''ardour'' [] True \<in> set (fst (main_startup build0 env0))"
    by (simp add: run_defs)
  show ?thesis
    using backend_name_is_JACK [of "''JACK''" "''studio''" "[]" True build0 env_client]
      backend_name_is_JACK [of "''JACK''" "''ardour''" "[]" True build0 env0] c d
    by simp
qed

section \<open>The engine-halt callback and the signal handler\<close>

text \<open>
  C4. For every reason, null or not, the engine-halt callback writes its message to the
  error stream, with the reason after a colon when the reason is a non-empty string, then
  delivers one token to the channel, and does nothing else: these four events are its
  whole trace.
\<close>

theorem engine_halted_logs_then_delivers:
  "engine_halted reason =
     Some [Cerr ''The audio backend has been shutdown'',
           Cerr (case reason of None \<Rightarrow> ''.'' | Some r \<Rightarrow> if r = [] then ''.'' else '': '' @ r),
           Cerr ''\<newline>'',
           Deliver (CHR ''x'')]
   \<and> map_option delivered (engine_halted reason) = Some [CHR ''x'']
   \<and> map_option cerr_text (engine_halted reason) =
       Some (''The audio backend has been shutdown''
             @ (case reason of None \<Rightarrow> ''.'' | Some r \<Rightarrow> if r = [] then ''.'' else '': '' @ r)
             @ ''\<newline>'')"
  by (cases reason) (simp_all add: engine_halted_def strlen_def)

theorem engine_halted_logs_then_delivers_witness:
  "engine_halted (Some ''device removed'') =
     Some [Cerr ''The audio backend has been shutdown'', Cerr '': device removed'',
           Cerr ''\<newline>'', Deliver (CHR ''x'')]
   \<and> map_option cerr_text (engine_halted (Some ''device removed'')) =
       Some ''The audio backend has been shutdown: device removed\<newline>''"
  using engine_halted_logs_then_delivers [of "Some ''device removed''"] by simp

text \<open>
  C8. The signal handler, the engine-halt callback and the UI callback on the quit action
  each deliver exactly the one token \<open>x\<close>; the UI callback delivers nothing else on any
  other action.
\<close>

theorem producers_deliver_x:
  "delivered (wearedone sig) = [CHR ''x'']
   \<and> map_option delivered (engine_halted reason) = Some [CHR ''x'']
   \<and> delivered (access_action ''Common'' ''Quit'') = [CHR ''x'']
   \<and> set (delivered (access_action g i)) \<subseteq> {CHR ''x''}"
  by (cases reason) (simp_all add: wearedone_def engine_halted_def strlen_def access_action_def)

theorem producers_deliver_x_witness:
  "delivered (wearedone 15) = [CHR ''x'']
   \<and> map_option delivered (engine_halted (Some ''device removed'')) = Some [CHR ''x'']
   \<and> delivered (access_action ''Common'' ''Quit'') = [CHR ''x'']
   \<and> set (delivered (access_action ''Common'' ''Save'')) \<subseteq> {CHR ''x''}"
  using producers_deliver_x [of 15 "Some ''device removed''" "''Common''" "''Save''"] by simp

text \<open>
  C10. The engine-halt callback is defined for every reason: it never reads through a null
  pointer, although \<open>strlen\<close> of the null pointer is undefined. For the null pointer and for
  the empty string it writes "The audio backend has been shutdown." and a newline, and
  delivers the token.
\<close>

theorem engine_halted_total:
  "strlen None = None
   \<and> engine_halted reason \<noteq> None
   \<and> engine_halted None =
       Some [Cerr ''The audio backend has been shutdown'', Cerr ''.'', Cerr ''\<newline>'',
             Deliver (CHR ''x'')]
   \<and> engine_halted (Some []) = engine_halted None
   \<and> map_option cerr_text (engine_halted None) =
       Some ''The audio backend has been shutdown.\<newline>''
   \<and> map_option delivered (engine_halted None) = Some [CHR ''x'']"
  by (cases reason) (simp_all add: engine_halted_def strlen_def)

theorem engine_halted_total_witness:
  "engine_halted (Some ''device removed'') \<noteq> None
   \<and> map_option cerr_text (engine_halted (Some [])) =
       Some ''The audio backend has been shutdown.\<newline>''"
  using engine_halted_total [of "Some ''device removed''"] by simp

end
